theory Spec2Isabelle
  imports Complex_Main "HOL-Library.Word" "HOL-Library.Monad_Syntax"
begin

section \<open>The ECG acquisition pipeline of the dual-input sketch\<close>

text \<open>
  The embedding follows the live-analog sketch (two analog channels, a cascade of four
  biquads per channel, a five second auto-calibration, six derived leads per tick), the
  synthetic-generator sketch and the 2-value CSV path of the visualizer.

  Numbers: the sketches compute in C \<open>float\<close> and the visualizer in JavaScript numbers.
  The filter, the calibration and the sampling loop are embedded over \<^typ>\<open>real\<close>: every
  operation there is the exact real operation. The lead derivation is embedded twice: over
  the reals (\<open>emitJson\<close>, \<open>sender_derive\<close>, \<open>csv2_derive\<close>, the formulas as written), and
  with every operation rounded as the machine rounds it, to binary32 in the sketches
  (\<open>emitJson_f32\<close>, \<open>sender_derive_f32\<close>) and to binary64 in the visualizer
  (\<open>csv2_derive_f64\<close>). The timers \<open>micros()\<close> and \<open>millis()\<close> are \<open>unsigned long\<close>,
  32 bits on the AVR target, and are embedded as \<^typ>\<open>32 word\<close>, so that \<open>now - lastUs\<close> and
  \<open>lastUs += intervalUs\<close> wrap as they do in C.
\<close>

subsection \<open>Configuration constants\<close>

definition CALIBRATION_TIME_MS :: "32 word" where
  "CALIBRATION_TIME_MS = 5000"

definition SAMPLE_RATE_HZ :: "32 word" where
  "SAMPLE_RATE_HZ = 125"

definition MV_PER_UNIT :: real where
  "MV_PER_UNIT = 1"

definition REF_MV :: real where
  "REF_MV = 1"

definition INVERT_CH1 :: bool where
  "INVERT_CH1 = False"

definition INVERT_CH2 :: bool where
  "INVERT_CH2 = False"

subsection \<open>Biquad stages and the channel filter\<close>

text \<open>\<open>struct Biquad { float a1, a2, b0, b1, b2; float z1, z2; }\<close>\<close>

record Biquad =
  a1 :: real
  a2 :: real
  b0 :: real
  b1 :: real
  b2 :: real
  z1 :: real
  z2 :: real

text \<open>
  \<open>processStage(Biquad &s, float in)\<close> updates the stage in place and returns the output;
  the model returns the output together with the updated stage.
\<close>

definition processStage :: "Biquad \<Rightarrow> real \<Rightarrow> real \<times> Biquad" where
  "processStage s inp =
     (let x = inp - a1 s * z1 s - a2 s * z2 s;
          out = b0 s * x + b1 s * z1 s + b2 s * z2 s
      in (out, s\<lparr>z2 := z1 s, z1 := x\<rparr>))"

text \<open>
  \<open>static Biquad st[2][4]\<close> is a list of channels, each a list of stages.
  \<open>ECGFilter(ch, input)\<close> is the loop \<open>for(i=0;i<4;i++) y = processStage(st[ch][i], y)\<close>;
  \<open>ECGFilter_from\<close> is that loop entered at stage \<open>i\<close>.
\<close>

function ECGFilter_from :: "nat \<Rightarrow> nat \<Rightarrow> real \<Rightarrow> Biquad list list \<Rightarrow> real \<times> Biquad list list" where
  "ECGFilter_from ch i y stv =
     (if i < 4
      then (let (out, s') = processStage (stv ! ch ! i) y
            in ECGFilter_from ch (Suc i) out (stv[ch := (stv ! ch)[i := s']]))
      else (y, stv))"
  by pat_completeness auto
termination
  by (relation "measure (\<lambda>(ch, i, y, stv). 4 - i)") auto

declare ECGFilter_from.simps [simp del]

definition ECGFilter :: "nat \<Rightarrow> real \<Rightarrow> Biquad list list \<Rightarrow> real \<times> Biquad list list" where
  "ECGFilter ch input stv = ECGFilter_from ch 0 input stv"

definition mkBiquad :: "real \<Rightarrow> real \<Rightarrow> real \<Rightarrow> real \<Rightarrow> real \<Rightarrow> real \<Rightarrow> real \<Rightarrow> Biquad" where
  "mkBiquad c1 c2 d0 d1 d2 w1 w2 = \<lparr>a1 = c1, a2 = c2, b0 = d0, b1 = d1, b2 = d2, z1 = w1, z2 = w2\<rparr>"

text \<open>\<open>initFilter()\<close>: the same four stages for both channels, all memory cells zero.\<close>

definition initFilter :: "Biquad list list" where
  "initFilter =
     (let stages =
        [mkBiquad 0.70682283 0.15621030 0.28064917 0.56129834 0.28064917 0 0,
         mkBiquad 0.95028224 0.54073140 1 2 1 0 0,
         mkBiquad (-1.95360385) 0.95423412 1 (-2) 1 0 0,
         mkBiquad (-1.98048558) 0.98111344 1 (-2) 1 0 0]
      in [stages, stages])"

text \<open>The filtering lines of \<open>loop()\<close>: channel 0 on the first reading, channel 1 on the second.\<close>

definition filter_both :: "real \<Rightarrow> real \<Rightarrow> Biquad list list \<Rightarrow> (real \<times> real) \<times> Biquad list list" where
  "filter_both raw1 raw2 stv =
     (let (f1, stv1) = ECGFilter 0 raw1 stv;
          (f2, stv2) = ECGFilter 1 raw2 stv1
      in ((f1, f2), stv2))"

subsection \<open>Lead derivation\<close>

record LeadRecord =
  lead1 :: real
  lead2 :: real
  lead3 :: real
  avr :: real
  avl :: real
  avf :: real

text \<open>
  \<open>emitJson(lead1_mv, lead2_mv)\<close> of the live-analog sketch; the record holds the six values
  handed to \<open>Serial.print\<close>, in the order of the JSON line.
\<close>

definition emitJson :: "real \<Rightarrow> real \<Rightarrow> LeadRecord" where
  "emitJson lead1_mv lead2_mv =
     (let lead3_mv = lead2_mv - lead1_mv;
          ra = 0; la = lead1_mv; ll = lead2_mv;
          avr_mv = ra - 0.5 * (la + ll);
          avl_mv = la - 0.5 * (ra + ll);
          avf_mv = ll - 0.5 * (ra + la)
      in \<lparr>lead1 = lead1_mv, lead2 = lead2_mv, lead3 = lead3_mv,
          avr = avr_mv, avl = avl_mv, avf = avf_mv\<rparr>)"

text \<open>
  The derivation of the synthetic-generator sketch (the same lines in its simulated and in
  its analog branch), from the two leads it has produced.
\<close>

definition sender_derive :: "real \<Rightarrow> real \<Rightarrow> LeadRecord" where
  "sender_derive l1 l2 =
     (let l3 = l2 - l1;
          la = l1; ll = l2; ra = 0;
          r = ra - (la + ll) / 2;
          l = la - (ra + ll) / 2;
          f = ll - (ra + la) / 2
      in \<lparr>lead1 = l1, lead2 = l2, lead3 = l3, avr = r, avl = l, avf = f\<rparr>)"

text \<open>
  The visualizer's branch for a line holding exactly two numbers:
  \<open>arr = [lead1, lead2, lead3, avr, avl, avf]\<close>.
\<close>

definition csv2_derive :: "real list \<Rightarrow> real list" where
  "csv2_derive nums =
     (let l1 = nums ! 0; l2 = nums ! 1;
          l3 = l2 - l1;
          ra = 0; la = l1; ll = l2;
          r = ra - (la + ll) / 2;
          l = la - (ra + ll) / 2;
          f = ll - (ra + la) / 2
      in [l1, l2, l3, r, l, f])"

definition record_values :: "LeadRecord \<Rightarrow> real list" where
  "record_values r = [lead1 r, lead2 r, lead3 r, avr r, avl r, avf r]"


subsection \<open>Binary floating point\<close>

text \<open>
  Rounding to nearest, ties to even, of a real number to a binary format with \<open>p\<close>
  significant bits whose least exponent of the last place is \<open>emin\<close> and greatest is
  \<open>emax\<close>. \<open>scale_down\<close> and \<open>scale_up\<close> write \<open>x\<close> as \<open>m * 2^e\<close> with
  \<open>2^(p-1) \<le> |m| < 2^p\<close>, or with \<open>e = emin\<close> for a subnormal; \<open>m\<close> is then rounded to an
  integer. A result beyond the largest finite number is \<open>None\<close>: the machine would produce
  an infinity, which is outside this embedding, as are NaN and the sign of zero.
\<close>

definition pow2 :: "int \<Rightarrow> real" where
  "pow2 e = (if 0 \<le> e then 2 ^ nat e else 1 / 2 ^ nat (- e))"

definition round_even :: "real \<Rightarrow> int" where
  "round_even m =
     (let f = \<lfloor>m\<rfloor>; d = m - of_int f
      in if d < 1 / 2 then f else if 1 / 2 < d then f + 1 else if even f then f else f + 1)"

function scale_down :: "nat \<Rightarrow> int \<Rightarrow> real \<Rightarrow> int \<Rightarrow> real \<times> int" where
  "scale_down p emax m e =
     (if e < emax \<and> 2 ^ p \<le> \<bar>m\<bar> then scale_down p emax (m / 2) (e + 1) else (m, e))"
  by pat_completeness auto
termination
  by (relation "measure (\<lambda>(p, emax, m, e). nat (emax - e))") auto

function scale_up :: "nat \<Rightarrow> int \<Rightarrow> real \<Rightarrow> int \<Rightarrow> real \<times> int" where
  "scale_up p emin m e =
     (if emin < e \<and> \<bar>m\<bar> < 2 ^ (p - 1) then scale_up p emin (2 * m) (e - 1) else (m, e))"
  by pat_completeness auto
termination
  by (relation "measure (\<lambda>(p, emin, m, e). nat (e - emin))") auto

declare scale_down.simps [simp del]

declare scale_up.simps [simp del]

definition rnd :: "nat \<Rightarrow> int \<Rightarrow> int \<Rightarrow> real \<Rightarrow> real option" where
  "rnd p emin emax x =
     (let (m1, e1) = scale_down p emax x 0;
          (m2, e2) = scale_up p emin m1 e1;
          v = of_int (round_even m2) * pow2 e2
      in if \<bar>v\<bar> \<le> (2 ^ p - 1) * pow2 emax then Some v else None)"

text \<open>
  binary32 (C \<open>float\<close>): 24 bits, least subnormal \<open>2^-149\<close>, largest number
  \<open>(2^24 - 1) * 2^104\<close>. binary64 (a JavaScript number): 53 bits, \<open>2^-1074\<close>,
  \<open>(2^53 - 1) * 2^971\<close>.
\<close>

definition f32 :: "real \<Rightarrow> real option" where
  "f32 = rnd 24 (- 149) 104"

definition f64 :: "real \<Rightarrow> real option" where
  "f64 = rnd 53 (- 1074) 971"

subsection \<open>Lead derivation in machine arithmetic\<close>

text \<open>
  \<open>emitJson\<close> as the sketch computes it: each \<open>float\<close> operation is the real operation
  followed by rounding to binary32. The arguments are the \<open>float\<close> values passed in.
\<close>

definition emitJson_f32 :: "real \<Rightarrow> real \<Rightarrow> LeadRecord option" where
  "emitJson_f32 lead1_mv lead2_mv =
     (let ra = 0; la = lead1_mv; ll = lead2_mv
      in do {
        lead3_mv \<leftarrow> f32 (lead2_mv - lead1_mv);
        s1 \<leftarrow> f32 (la + ll);
        h1 \<leftarrow> f32 (0.5 * s1);
        avr_mv \<leftarrow> f32 (ra - h1);
        s2 \<leftarrow> f32 (ra + ll);
        h2 \<leftarrow> f32 (0.5 * s2);
        avl_mv \<leftarrow> f32 (la - h2);
        s3 \<leftarrow> f32 (ra + la);
        h3 \<leftarrow> f32 (0.5 * s3);
        avf_mv \<leftarrow> f32 (ll - h3);
        Some \<lparr>lead1 = lead1_mv, lead2 = lead2_mv, lead3 = lead3_mv,
              avr = avr_mv, avl = avl_mv, avf = avf_mv\<rparr>
      })"

text \<open>The synthetic-generator sketch's derivation, in binary32: it divides by \<open>2.0f\<close>.\<close>

definition sender_derive_f32 :: "real \<Rightarrow> real \<Rightarrow> LeadRecord option" where
  "sender_derive_f32 l1 l2 =
     (let la = l1; ll = l2; ra = 0
      in do {
        l3 \<leftarrow> f32 (l2 - l1);
        s1 \<leftarrow> f32 (la + ll);
        h1 \<leftarrow> f32 (s1 / 2);
        r \<leftarrow> f32 (ra - h1);
        s2 \<leftarrow> f32 (ra + ll);
        h2 \<leftarrow> f32 (s2 / 2);
        l \<leftarrow> f32 (la - h2);
        s3 \<leftarrow> f32 (ra + la);
        h3 \<leftarrow> f32 (s3 / 2);
        f \<leftarrow> f32 (ll - h3);
        Some \<lparr>lead1 = l1, lead2 = l2, lead3 = l3, avr = r, avl = l, avf = f\<rparr>
      })"

text \<open>The visualizer's 2-value branch, in binary64.\<close>

definition csv2_derive_f64 :: "real list \<Rightarrow> real list option" where
  "csv2_derive_f64 nums =
     (let l1 = nums ! 0; l2 = nums ! 1; ra = 0; la = l1; ll = l2
      in do {
        l3 \<leftarrow> f64 (l2 - l1);
        s1 \<leftarrow> f64 (la + ll);
        h1 \<leftarrow> f64 (s1 / 2);
        r \<leftarrow> f64 (ra - h1);
        s2 \<leftarrow> f64 (ra + ll);
        h2 \<leftarrow> f64 (s2 / 2);
        l \<leftarrow> f64 (la - h2);
        s3 \<leftarrow> f64 (ra + la);
        h3 \<leftarrow> f64 (s3 / 2);
        f \<leftarrow> f64 (ll - h3);
        Some [l1, l2, l3, r, l, f]
      })"

text \<open>
  The square-wave calibration sketch, after its scheduler gate: \<open>count++\<close>, then
  \<open>high = ((count / (uint32_t)(SAMPLE_RATE_HZ/4)) % 2) == 0\<close>, where the divisor is
  \<open>(uint32_t) 31.25 = 31\<close>; it prints \<open>lead2\<close> as 1 or 0 and the literal \<open>0.000\<close> for the
  other five fields. The result is the record printed and the new \<open>count\<close>.
\<close>

definition squarewave_loop :: "32 word \<Rightarrow> LeadRecord \<times> 32 word" where
  "squarewave_loop count0 =
     (let count = count0 + 1;
          high = ((count div 31) mod 2 = 0);
          l2 = (if high then 1 else 0)
      in (\<lparr>lead1 = 0, lead2 = l2, lead3 = 0, avr = 0, avl = 0, avf = 0\<rparr>, count))"

text \<open>
  A number that binary32, or binary64, holds exactly, and the pairs of leads on which no
  operation of the derivation rounds in that format.
\<close>

definition exact32 :: "real \<Rightarrow> bool" where
  "exact32 v = (f32 v = Some v)"

definition exact64 :: "real \<Rightarrow> bool" where
  "exact64 v = (f64 v = Some v)"

definition no_rounding32 :: "real \<Rightarrow> real \<Rightarrow> bool" where
  "no_rounding32 x y =
     (exact32 x \<and> exact32 y \<and> exact32 (y - x) \<and> exact32 (x + y)
      \<and> exact32 ((x + y) / 2) \<and> exact32 (- ((x + y) / 2))
      \<and> exact32 (y / 2) \<and> exact32 (x - y / 2)
      \<and> exact32 (x / 2) \<and> exact32 (y - x / 2))"

definition no_rounding64 :: "real \<Rightarrow> real \<Rightarrow> bool" where
  "no_rounding64 x y =
     (exact64 x \<and> exact64 y \<and> exact64 (y - x) \<and> exact64 (x + y)
      \<and> exact64 ((x + y) / 2) \<and> exact64 (- ((x + y) / 2))
      \<and> exact64 (y / 2) \<and> exact64 (x - y / 2)
      \<and> exact64 (x / 2) \<and> exact64 (y - x / 2))"

subsection \<open>Calibration and the sampling loop\<close>

text \<open>
  The file-scope statics of the sketch, and \<open>lastUs\<close>, the static local of \<open>loop()\<close>: it is
  initialised from \<open>micros()\<close> when \<open>loop()\<close> is entered for the first time, so it is absent
  (\<open>None\<close>) until then. The source names \<open>min1_\<close>, \<open>max1_\<close>, \<open>min2_\<close>, \<open>max2_\<close> lose their
  trailing underscore.
\<close>

record ecg_state =
  st :: "Biquad list list"
  calibrated :: bool
  calibStartMs :: "32 word"
  min1 :: real
  max1 :: real
  min2 :: real
  max2 :: real
  baseline1 :: real
  baseline2 :: real
  gain1 :: real
  gain2 :: real
  lastUs :: "32 word option"

text \<open>The state after the static initialisers and \<open>setup()\<close>, which reads \<open>millis()\<close> once.\<close>

definition setup_sketch :: "32 word \<Rightarrow> ecg_state" where
  "setup_sketch ms =
     \<lparr>st = initFilter, calibrated = False, calibStartMs = ms,
      min1 = 1000000000, max1 = - 1000000000,
      min2 = 1000000000, max2 = - 1000000000,
      baseline1 = 0, baseline2 = 0, gain1 = 1, gain2 = 1, lastUs = None\<rparr>"

text \<open>\<open>updateCalibration(f1, f2)\<close>; \<open>ms\<close> is what \<open>millis()\<close> returns when it is called.\<close>

definition updateCalibration :: "real \<Rightarrow> real \<Rightarrow> 32 word \<Rightarrow> ecg_state \<Rightarrow> ecg_state" where
  "updateCalibration f1 f2 ms s0 =
     (let sa = (if f1 < min1 s0 then s0\<lparr>min1 := f1\<rparr> else s0);
          sb = (if f1 > max1 sa then sa\<lparr>max1 := f1\<rparr> else sa);
          sc = (if f2 < min2 sb then sb\<lparr>min2 := f2\<rparr> else sb);
          s = (if f2 > max2 sc then sc\<lparr>max2 := f2\<rparr> else sc)
      in if \<not> calibrated s \<and> ms - calibStartMs s \<ge> CALIBRATION_TIME_MS
         then (let bl1 = 0.5 * (max1 s + min1 s);
                   bl2 = 0.5 * (max2 s + min2 s);
                   amp1 = 0.5 * (max1 s - min1 s);
                   amp2 = 0.5 * (max2 s - min2 s);
                   amp1' = (if amp1 < 1 then 1 else amp1);
                   amp2' = (if amp2 < 1 then 1 else amp2)
               in s\<lparr>baseline1 := bl1, baseline2 := bl2,
                    gain1 := REF_MV / amp1', gain2 := REF_MV / amp2',
                    calibrated := True\<rparr>)
         else s)"

text \<open>
  What one call of \<open>loop()\<close> reads from its environment: \<open>micros()\<close> in the static
  initialiser of \<open>lastUs\<close> (read on the first entry only), \<open>micros()\<close> for \<open>now\<close>, the two
  \<open>analogRead\<close> values and \<open>millis()\<close> inside \<open>updateCalibration\<close>.
\<close>

record readings =
  us_first :: "32 word"
  us_now :: "32 word"
  adc1 :: int
  adc2 :: int
  ms_now :: "32 word"

definition intervalUs :: "32 word" where
  "intervalUs = 1000000 div SAMPLE_RATE_HZ"

text \<open>The baseline removal and gain lines of \<open>loop()\<close>, for one channel.\<close>

definition apply_calibration :: "bool \<Rightarrow> real \<Rightarrow> real \<Rightarrow> real \<Rightarrow> real" where
  "apply_calibration c baseline gain f = (if c then (f - baseline) * gain else f)"

text \<open>
  The value of the static local \<open>lastUs\<close> once the declaration has been passed: the
  initialiser runs on the first entry only.
\<close>

definition static_lastUs :: "readings \<Rightarrow> ecg_state \<Rightarrow> 32 word" where
  "static_lastUs rd s = (case lastUs s of None \<Rightarrow> us_first rd | Some l \<Rightarrow> l)"

text \<open>
  One call of \<open>loop()\<close>: the record it prints, if it prints one, and the state it leaves.
\<close>

definition loop :: "readings \<Rightarrow> ecg_state \<Rightarrow> LeadRecord option \<times> ecg_state" where
  "loop rd s0 =
     (let last = static_lastUs rd s0;
          now = us_now rd
      in if now - last < intervalUs then (None, s0\<lparr>lastUs := Some last\<rparr>)
         else
           (let sa = s0\<lparr>lastUs := Some (last + intervalUs)\<rparr>;
                r1 = real_of_int (adc1 rd);
                r2 = real_of_int (adc2 rd);
                raw1 = (if INVERT_CH1 then - r1 else r1);
                raw2 = (if INVERT_CH2 then - r2 else r2);
                ((f1, f2), stv) = filter_both raw1 raw2 (st sa);
                sb = sa\<lparr>st := stv\<rparr>;
                s = updateCalibration f1 f2 (ms_now rd) sb;
                s1 = apply_calibration (calibrated s) (baseline1 s) (gain1 s) f1;
                s2 = apply_calibration (calibrated s) (baseline2 s) (gain2 s) f2;
                lead1_mv = s1 * MV_PER_UNIT;
                lead2_mv = s2 * MV_PER_UNIT
            in (Some (emitJson lead1_mv lead2_mv), s)))"

text \<open>
  The Arduino core calls \<open>loop()\<close> forever; \<open>run\<close> is a finite prefix of those calls, one
  element of the list per call, and collects the records printed.
\<close>

fun run :: "readings list \<Rightarrow> ecg_state \<Rightarrow> LeadRecord list \<times> ecg_state" where
  "run [] s = ([], s)"
| "run (rd # rds) s =
     (let (r, s') = loop rd s;
          (rs, s'') = run rds s'
      in ((case r of None \<Rightarrow> rs | Some x \<Rightarrow> x # rs), s''))"

text \<open>The filtering lines alone, over a sequence of pairs of raw samples.\<close>

fun filter_run :: "(real \<times> real) list \<Rightarrow> Biquad list list \<Rightarrow> (real \<times> real) list \<times> Biquad list list" where
  "filter_run [] stv = ([], stv)"
| "filter_run (p # ps) stv =
     (let (fs, stv') = filter_both (fst p) (snd p) stv;
          (rest, stv'') = filter_run ps stv'
      in (fs # rest, stv''))"

text \<open>The shape of \<open>st[2][4]\<close>.\<close>

definition wf_st :: "Biquad list list \<Rightarrow> bool" where
  "wf_st stv = (length stv = 2 \<and> length (stv ! 0) = 4 \<and> length (stv ! 1) = 4)"

subsection \<open>The cascade as the composition of its stages\<close>

text \<open>
  The channel filter as the specification words it: the stages of one channel applied in
  order, each stage's output being the next stage's input. \<open>cascade\<close> is one sample through
  the stages of one channel, \<open>cascade_run\<close> a sequence of samples through them. They are
  compared with \<open>ECGFilter\<close> below.
\<close>

fun cascade :: "Biquad list \<Rightarrow> real \<Rightarrow> real \<times> Biquad list" where
  "cascade [] y = (y, [])"
| "cascade (s # ss) y =
     (let (out, s') = processStage s y;
          (r, ss') = cascade ss out
      in (r, s' # ss'))"

fun cascade_run :: "real list \<Rightarrow> Biquad list \<Rightarrow> real list" where
  "cascade_run [] ss = []"
| "cascade_run (x # xs) ss = fst (cascade ss x) # cascade_run xs (snd (cascade ss x))"

subsection \<open>Auxiliary notions for the calibration proofs\<close>

text \<open>The running minima and maxima once one more pair of filtered samples is recorded.\<close>

definition tracked :: "real \<Rightarrow> real \<Rightarrow> ecg_state \<Rightarrow> ecg_state" where
  "tracked f1 f2 s = s\<lparr>min1 := min (min1 s) f1, max1 := max (max1 s) f1,
                        min2 := min (min2 s) f2, max2 := max (max2 s) f2\<rparr>"

text \<open>Each recorded minimum is at most the recorded maximum of its channel.\<close>

definition ordered :: "ecg_state \<Rightarrow> bool" where
  "ordered s = (min1 s \<le> max1 s \<and> min2 s \<le> max2 s)"

text \<open>
  The scenario of the end-to-end property: the sketch with every stage of both channels
  replaced by a pass-through stage (\<open>b0 = 1\<close>, every other coefficient zero), both inputs
  constant. \<open>is_pass\<close> and \<open>pass_st\<close> say that a stage, or the whole table, has the
  pass-through coefficients, whatever its memory cells hold; \<open>steady\<close> is the invariant of
  that scenario: nothing recorded yet, or 100 and 150 recorded on the two channels, and
  then, once calibrated, baselines 100 and 150 and both gains 1.
\<close>

definition passthrough :: Biquad where
  "passthrough = mkBiquad 0 0 1 0 0 0 0"

definition passthrough_sketch :: "32 word \<Rightarrow> ecg_state" where
  "passthrough_sketch ms = (setup_sketch ms)\<lparr>st := [replicate 4 passthrough, replicate 4 passthrough]\<rparr>"

definition is_pass :: "Biquad \<Rightarrow> bool" where
  "is_pass s = (a1 s = 0 \<and> a2 s = 0 \<and> b0 s = 1 \<and> b1 s = 0 \<and> b2 s = 0)"

definition pass_st :: "Biquad list list \<Rightarrow> bool" where
  "pass_st stv = (wf_st stv \<and> list_all is_pass (stv ! 0) \<and> list_all is_pass (stv ! 1))"

definition steady :: "ecg_state \<Rightarrow> bool" where
  "steady s =
     (pass_st (st s) \<and>
      ((\<not> calibrated s \<and> min1 s = 1000000000 \<and> max1 s = - 1000000000
          \<and> min2 s = 1000000000 \<and> max2 s = - 1000000000)
       \<or> (min1 s = 100 \<and> max1 s = 100 \<and> min2 s = 150 \<and> max2 s = 150
          \<and> (calibrated s \<longrightarrow> baseline1 s = 100 \<and> baseline2 s = 150
                               \<and> gain1 s = 1 \<and> gain2 s = 1))))"

section \<open>Lead derivation: theorems\<close>


lemma derivations_exact_agree:
  "sender_derive x y = emitJson x y
   \<and> csv2_derive [x, y] = record_values (emitJson x y)"
  by (simp add: sender_derive_def emitJson_def csv2_derive_def record_values_def Let_def)

lemmas fl_eval = f32_def f64_def rnd_def scale_down.simps scale_up.simps round_even_def
  pow2_def Let_def


lemma emitJson_f32_no_rounding:
  assumes "no_rounding32 x y"
  shows "emitJson_f32 x y = Some (emitJson x y)"
  using assms
  by (simp add: no_rounding32_def exact32_def emitJson_f32_def emitJson_def Let_def)

lemma sender_derive_f32_eq: "sender_derive_f32 x y = emitJson_f32 x y"
  by (simp add: sender_derive_f32_def emitJson_f32_def Let_def)

lemma csv2_derive_f64_no_rounding:
  assumes "no_rounding64 x y"
  shows "csv2_derive_f64 [x, y] = Some (record_values (emitJson x y))"
  using assms
  by (simp add: no_rounding64_def exact64_def csv2_derive_f64_def emitJson_def
      record_values_def Let_def)


lemma emitJson_f32_pair:
  "emitJson_f32 470.877655029296875 275.904876708984375
     = Some \<lparr>lead1 = 470.877655029296875, lead2 = 275.904876708984375,
             lead3 = - 194.9727783203125, avr = - 373.391265869140625,
             avl = 332.92523193359375, avf = 40.4660491943359375\<rparr>"
  by (simp add: emitJson_f32_def fl_eval)

lemma csv2_derive_f64_pair:
  "csv2_derive_f64 [470.877655029296875, 275.904876708984375]
     = Some [470.877655029296875, 275.904876708984375, - 194.9727783203125,
             - 373.391265869140625, 332.9252166748046875, 40.4660491943359375]"
  by (simp add: csv2_derive_f64_def fl_eval)



lemma no_rounding32_100_150: "no_rounding32 100 150"
  by (simp add: no_rounding32_def exact32_def fl_eval)

lemma no_rounding64_100_150: "no_rounding64 100 150"
  by (simp add: no_rounding64_def exact64_def fl_eval)


text \<open>
  C9, as stated, fails twice. The visualizer computes in binary64 and the sketches in
  binary32: on the pair (470.877655029296875, 275.904876708984375) the sketch's aVL is
  332.92523193359375 and the visualizer's is 332.9252166748046875. And one firmware
  variant, the square-wave sketch, derives nothing: on its first tick it prints lead2 = 1
  with lead3 = 0, where the derivation from (0, 1) gives lead3 = 1.
\<close>

theorem derivations_differ:
  "emitJson_f32 470.877655029296875 275.904876708984375
     = Some \<lparr>lead1 = 470.877655029296875, lead2 = 275.904876708984375,
             lead3 = - 194.9727783203125, avr = - 373.391265869140625,
             avl = 332.92523193359375, avf = 40.4660491943359375\<rparr>
   \<and> csv2_derive_f64 [470.877655029296875, 275.904876708984375]
     = Some [470.877655029296875, 275.904876708984375, - 194.9727783203125,
             - 373.391265869140625, 332.9252166748046875, 40.4660491943359375]
   \<and> (332.92523193359375 :: real) \<noteq> 332.9252166748046875
   \<and> fst (squarewave_loop 0)
     = \<lparr>lead1 = 0, lead2 = 1, lead3 = 0, avr = 0, avl = 0, avf = 0\<rparr>
   \<and> emitJson_f32 0 1
     = Some \<lparr>lead1 = 0, lead2 = 1, lead3 = 1, avr = - 0.5, avl = - 0.5, avf = 1\<rparr>"
proof -
  have s: "fst (squarewave_loop 0) = \<lparr>lead1 = 0, lead2 = 1, lead3 = 0, avr = 0, avl = 0, avf = 0\<rparr>"
    by (simp add: squarewave_loop_def Let_def)
  have d: "emitJson_f32 0 1
     = Some \<lparr>lead1 = 0, lead2 = 1, lead3 = 1, avr = - 0.5, avl = - 0.5, avf = 1\<rparr>"
    by (simp add: emitJson_f32_def fl_eval)
  have n: "(332.92523193359375 :: real) \<noteq> 332.9252166748046875" by simp
  show ?thesis
    by (intro conjI emitJson_f32_pair csv2_derive_f64_pair n s d)
qed

text \<open>
  C9, amended. The live-analog sketch's \<open>emitJson\<close> and the synthetic-generator sketch's
  derivation are the same binary32 function of (lead1, lead2). As formulas over the reals
  the visualizer's 2-value branch is that function too; it evaluates them in binary64, and
  its six values are the sketches' whenever no operation rounds in either format. The
  square-wave sketch is not a derivation: it prints lead2 as 0 or 1 and zero for the other
  five fields.
\<close>

theorem derivations_agree:
  "sender_derive_f32 x y = emitJson_f32 x y
   \<and> sender_derive x y = emitJson x y
   \<and> csv2_derive [x, y] = record_values (emitJson x y)
   \<and> (no_rounding32 x y \<and> no_rounding64 x y \<longrightarrow>
        csv2_derive_f64 [x, y] = map_option record_values (emitJson_f32 x y))
   \<and> lead1 (fst (squarewave_loop c)) = 0
   \<and> (lead2 (fst (squarewave_loop c)) = 0 \<or> lead2 (fst (squarewave_loop c)) = 1)
   \<and> lead3 (fst (squarewave_loop c)) = 0 \<and> avr (fst (squarewave_loop c)) = 0
   \<and> avl (fst (squarewave_loop c)) = 0 \<and> avf (fst (squarewave_loop c)) = 0"
proof -
  have a: "no_rounding32 x y \<and> no_rounding64 x y \<longrightarrow>
        csv2_derive_f64 [x, y] = map_option record_values (emitJson_f32 x y)"
    by (simp add: csv2_derive_f64_no_rounding emitJson_f32_no_rounding)
  have b: "lead1 (fst (squarewave_loop c)) = 0
   \<and> (lead2 (fst (squarewave_loop c)) = 0 \<or> lead2 (fst (squarewave_loop c)) = 1)
   \<and> lead3 (fst (squarewave_loop c)) = 0 \<and> avr (fst (squarewave_loop c)) = 0
   \<and> avl (fst (squarewave_loop c)) = 0 \<and> avf (fst (squarewave_loop c)) = 0"
    by (simp add: squarewave_loop_def Let_def)
  from a b sender_derive_f32_eq[of x y] derivations_exact_agree[of x y] show ?thesis by blast
qed

theorem derivations_agree_witness:
  "no_rounding32 100 150 \<and> no_rounding64 100 150
   \<and> csv2_derive_f64 [100, 150] = Some [100, 150, 50, - 125, 25, 100]
   \<and> emitJson_f32 100 150
       = Some \<lparr>lead1 = 100, lead2 = 150, lead3 = 50, avr = - 125, avl = 25, avf = 100\<rparr>"
proof -
  have e: "emitJson 100 150 = \<lparr>lead1 = 100, lead2 = 150, lead3 = 50, avr = - 125, avl = 25, avf = 100\<rparr>"
    by (simp add: emitJson_def Let_def)
  have f: "emitJson_f32 100 150 = Some (emitJson 100 150)"
    using no_rounding32_100_150 by (rule emitJson_f32_no_rounding)
  from derivations_agree[of 100 150] no_rounding32_100_150 no_rounding64_100_150
  have "csv2_derive_f64 [100, 150] = map_option record_values (emitJson_f32 100 150)" by blast
  with e f no_rounding32_100_150 no_rounding64_100_150 show ?thesis
    by (simp add: record_values_def)
qed

section \<open>The channel filter: theorems\<close>

lemma length_cascade: "length (snd (cascade ss y)) = length ss"
proof (induction ss arbitrary: y)
  case Nil
  show ?case by simp
next
  case (Cons s ss)
  obtain out s' where ps: "processStage s y = (out, s')" by (cases "processStage s y")
  obtain r ss' where cs: "cascade ss out = (r, ss')" by (cases "cascade ss out")
  from Cons[of out] cs have "length ss' = length ss" by simp
  with ps cs show ?case by simp
qed

lemma ECGFilter_from_cascade:
  assumes "ch < length stv" "length (stv ! ch) = 4" "i \<le> 4"
  shows "ECGFilter_from ch i y stv =
     (fst (cascade (drop i (stv ! ch)) y),
      stv[ch := take i (stv ! ch) @ snd (cascade (drop i (stv ! ch)) y)])"
  using assms
proof (induction ch i y stv rule: ECGFilter_from.induct)
  case (1 ch i y stv)
  show ?case
  proof (cases "i < 4")
    case False
    with 1 have "i = 4" by simp
    with 1 show ?thesis by (simp add: ECGFilter_from.simps list_update_same_conv)
  next
    case True
    obtain out s' where ps: "processStage (stv ! ch ! i) y = (out, s')" by (cases "processStage (stv ! ch ! i) y")
    let ?stv' = "stv[ch := (stv ! ch)[i := s']]"
    have len: "ch < length ?stv'" "length (?stv' ! ch) = 4" "Suc i \<le> 4"
      using 1 True by simp_all
    have IH: "ECGFilter_from ch (Suc i) out ?stv' =
        (fst (cascade (drop (Suc i) (?stv' ! ch)) out),
         ?stv'[ch := take (Suc i) (?stv' ! ch) @ snd (cascade (drop (Suc i) (?stv' ! ch)) out)])"
      using "1.IH"[OF True ps[symmetric] refl len] .
    have d: "drop i (stv ! ch) = (stv ! ch ! i) # drop (Suc i) (stv ! ch)"
      using 1 True by (simp add: Cons_nth_drop_Suc)
    have t: "take (Suc i) ((stv ! ch)[i := s']) = take i (stv ! ch) @ [s']"
      using 1 True by (simp add: take_Suc_conv_app_nth)
    have dd: "drop (Suc i) ((stv ! ch)[i := s']) = drop (Suc i) (stv ! ch)"
      by simp
    show ?thesis
      using True 1(2) ps IH
      apply (subst ECGFilter_from.simps)
      apply (simp add: d t dd split: prod.splits)
      done
  qed
qed

lemma ECGFilter_cascade:
  assumes "ch < length stv" "length (stv ! ch) = 4"
  shows "ECGFilter ch y stv = (fst (cascade (stv ! ch) y), stv[ch := snd (cascade (stv ! ch) y)])"
  using ECGFilter_from_cascade[OF assms, of 0 y] by (simp add: ECGFilter_def)

lemma wf_st_pair: "wf_st stv \<longleftrightarrow> (\<exists>c0 c1. stv = [c0, c1] \<and> length c0 = 4 \<and> length c1 = 4)"
proof
  assume w: "wf_st stv"
  then have "length stv = 2" by (simp add: wf_st_def)
  then obtain c0 c1 where "stv = [c0, c1]"
    by (cases stv; cases "tl stv") auto
  with w show "\<exists>c0 c1. stv = [c0, c1] \<and> length c0 = 4 \<and> length c1 = 4"
    by (auto simp: wf_st_def)
next
  assume "\<exists>c0 c1. stv = [c0, c1] \<and> length c0 = 4 \<and> length c1 = 4"
  then show "wf_st stv" by (auto simp: wf_st_def)
qed

lemma filter_both_cascade:
  assumes "length c0 = 4" "length c1 = 4"
  shows "filter_both r1 r2 [c0, c1] =
     ((fst (cascade c0 r1), fst (cascade c1 r2)), [snd (cascade c0 r1), snd (cascade c1 r2)])"
proof -
  have e0: "ECGFilter 0 r1 [c0, c1] = (fst (cascade c0 r1), [snd (cascade c0 r1), c1])"
    using ECGFilter_cascade[of 0 "[c0, c1]" r1] assms by simp
  have e1: "ECGFilter 1 r2 [snd (cascade c0 r1), c1] =
      (fst (cascade c1 r2), [snd (cascade c0 r1), snd (cascade c1 r2)])"
    using ECGFilter_cascade[of 1 "[snd (cascade c0 r1), c1]" r2] assms by simp
  show ?thesis by (simp only: filter_both_def e0 e1 Let_def case_prod_conv)
qed

lemma filter_run_cascade:
  assumes "length c0 = 4" "length c1 = 4"
  shows "map fst (fst (filter_run ps [c0, c1])) = cascade_run (map fst ps) c0
       \<and> map snd (fst (filter_run ps [c0, c1])) = cascade_run (map snd ps) c1"
  using assms
proof (induction ps arbitrary: c0 c1)
  case Nil
  show ?case by simp
next
  case (Cons p ps)
  let ?d0 = "snd (cascade c0 (fst p))" and ?d1 = "snd (cascade c1 (snd p))"
  have len: "length ?d0 = 4" "length ?d1 = 4"
    using Cons.prems by (simp_all add: length_cascade)
  show ?case
    using Cons.IH[OF len] filter_both_cascade[OF Cons.prems]
    by (simp add: case_prod_beta)
qed

text \<open>
  C4. A stage with input \<open>inp\<close> and memory \<open>(z1, z2)\<close> computes
  \<open>x = inp - a1*z1 - a2*z2\<close>, returns \<open>b0*x + b1*z1 + b2*z2\<close> and leaves \<open>z2 = z1\<close>,
  \<open>z1 = x\<close>; on a channel with four stages \<open>ECGFilter\<close> is stage 0, 1, 2, 3 in that order,
  each fed the output of the one before, and only that channel's stages change.
\<close>

theorem filter_stage_and_cascade:
  "processStage s inp =
     (b0 s * (inp - a1 s * z1 s - a2 s * z2 s) + b1 s * z1 s + b2 s * z2 s,
      s\<lparr>z2 := z1 s, z1 := inp - a1 s * z1 s - a2 s * z2 s\<rparr>)
   \<and> (ch < length stv \<and> length (stv ! ch) = 4 \<longrightarrow>
        ECGFilter ch y stv =
          (let (y1, s1) = processStage (stv ! ch ! 0) y;
               (y2, s2) = processStage (stv ! ch ! 1) y1;
               (y3, s3) = processStage (stv ! ch ! 2) y2;
               (y4, s4) = processStage (stv ! ch ! 3) y3
           in (y4, stv[ch := [s1, s2, s3, s4]])))"
proof (intro conjI impI)
  show "processStage s inp =
     (b0 s * (inp - a1 s * z1 s - a2 s * z2 s) + b1 s * z1 s + b2 s * z2 s,
      s\<lparr>z2 := z1 s, z1 := inp - a1 s * z1 s - a2 s * z2 s\<rparr>)"
    by (simp add: processStage_def Let_def)
next
  assume a: "ch < length stv \<and> length (stv ! ch) = 4"
  then obtain t0 t1 t2 t3 where c: "stv ! ch = [t0, t1, t2, t3]"
    by (auto simp: length_Suc_conv numeral_eq_Suc)
  from a have "ECGFilter ch y stv = (fst (cascade (stv ! ch) y), stv[ch := snd (cascade (stv ! ch) y)])"
    by (simp add: ECGFilter_cascade)
  then show "ECGFilter ch y stv =
          (let (y1, s1) = processStage (stv ! ch ! 0) y;
               (y2, s2) = processStage (stv ! ch ! 1) y1;
               (y3, s3) = processStage (stv ! ch ! 2) y2;
               (y4, s4) = processStage (stv ! ch ! 3) y3
           in (y4, stv[ch := [s1, s2, s3, s4]]))"
    by (simp add: c split: prod.splits)
qed

theorem filter_stage_and_cascade_witness:
  "0 < length initFilter \<and> length (initFilter ! 0) = 4
   \<and> ECGFilter 0 1 initFilter =
          (let (y1, s1) = processStage (initFilter ! 0 ! 0) 1;
               (y2, s2) = processStage (initFilter ! 0 ! 1) y1;
               (y3, s3) = processStage (initFilter ! 0 ! 2) y2;
               (y4, s4) = processStage (initFilter ! 0 ! 3) y3
           in (y4, initFilter[0 := [s1, s2, s3, s4]]))"
proof -
  have h: "0 < length initFilter \<and> length (initFilter ! 0) = 4"
    by (simp add: initFilter_def Let_def)
  from filter_stage_and_cascade[of _ _ 0 initFilter 1] h show ?thesis by blast
qed

text \<open>
  C5. Two runs of the filtering lines from the same filter state that agree on the
  channel 1 inputs produce the same channel 1 outputs, whatever the channel 2 inputs are,
  and the same with the channels exchanged.
\<close>

theorem channel_independence:
  assumes "wf_st stv"
  shows "(map fst ps = map fst qs \<longrightarrow>
            map fst (fst (filter_run ps stv)) = map fst (fst (filter_run qs stv)))
       \<and> (map snd ps = map snd qs \<longrightarrow>
            map snd (fst (filter_run ps stv)) = map snd (fst (filter_run qs stv)))"
proof -
  from assms obtain c0 c1 where s: "stv = [c0, c1]" and l: "length c0 = 4" "length c1 = 4"
    unfolding wf_st_pair by blast
  show ?thesis
    unfolding s using filter_run_cascade[OF l, of ps] filter_run_cascade[OF l, of qs]
    by simp
qed

theorem channel_independence_witness:
  "wf_st initFilter
   \<and> map fst [(1, 2), (3, 4)] = map fst [(1, 7), (3 :: real, 9 :: real)]
   \<and> map fst (fst (filter_run [(1, 2), (3, 4)] initFilter))
       = map fst (fst (filter_run [(1, 7), (3, 9)] initFilter))"
proof -
  have w: "wf_st initFilter" by (simp add: wf_st_def initFilter_def Let_def)
  have m: "map fst [(1, 2), (3, 4)] = map fst [(1, 7), (3 :: real, 9 :: real)]" by simp
  from channel_independence[OF w, of "[(1, 2), (3, 4)]" "[(1, 7), (3, 9)]"] m
  have "map fst (fst (filter_run [(1, 2), (3, 4)] initFilter))
       = map fst (fst (filter_run [(1, 7), (3, 9)] initFilter))" by blast
  with w m show ?thesis by blast
qed

section \<open>Calibration: theorems\<close>

lemma intervalUs_eq: "intervalUs = 8000"
  by (simp add: intervalUs_def SAMPLE_RATE_HZ_def)

lemma track_min1: "min1 t = m \<Longrightarrow> (if f < m then t\<lparr>min1 := f\<rparr> else t) = t\<lparr>min1 := min m f\<rparr>"
  by (cases "f < m") (simp_all add: min_def)

lemma track_max1: "max1 t = m \<Longrightarrow> (if m < f then t\<lparr>max1 := f\<rparr> else t) = t\<lparr>max1 := max m f\<rparr>"
  by (cases "m < f") (simp_all add: max_def)

lemma track_min2: "min2 t = m \<Longrightarrow> (if f < m then t\<lparr>min2 := f\<rparr> else t) = t\<lparr>min2 := min m f\<rparr>"
  by (cases "f < m") (simp_all add: min_def)

lemma track_max2: "max2 t = m \<Longrightarrow> (if m < f then t\<lparr>max2 := f\<rparr> else t) = t\<lparr>max2 := max m f\<rparr>"
  by (cases "m < f") (simp_all add: max_def)

lemma floor_amp: "(if x < 1 then 1 else x) = max 1 (x :: real)"
  by (simp add: max_def)

lemma updateCalibration_cases:
  "updateCalibration f1 f2 ms s =
     (let t = tracked f1 f2 s
      in if \<not> calibrated s \<and> CALIBRATION_TIME_MS \<le> ms - calibStartMs s
         then t\<lparr>baseline1 := (max1 t + min1 t) / 2, baseline2 := (max2 t + min2 t) / 2,
                gain1 := REF_MV / max 1 ((max1 t - min1 t) / 2),
                gain2 := REF_MV / max 1 ((max2 t - min2 t) / 2),
                calibrated := True\<rparr>
         else t)"
  by (simp add: updateCalibration_def tracked_def Let_def floor_amp
      track_min1 track_max1 track_min2 track_max2)

lemma loop_due:
  "\<not> us_now rd - static_lastUs rd s < intervalUs \<Longrightarrow>
   loop rd s =
     (let fs = filter_both (real_of_int (adc1 rd)) (real_of_int (adc2 rd)) (st s);
          s' = updateCalibration (fst (fst fs)) (snd (fst fs)) (ms_now rd)
                 (s\<lparr>lastUs := Some (static_lastUs rd s + intervalUs), st := snd fs\<rparr>)
      in (Some (emitJson (apply_calibration (calibrated s') (baseline1 s') (gain1 s') (fst (fst fs)))
                         (apply_calibration (calibrated s') (baseline2 s') (gain2 s') (snd (fst fs)))),
          s'))"
  by (simp add: loop_def Let_def INVERT_CH1_def INVERT_CH2_def MV_PER_UNIT_def case_prod_beta)

lemma loop_not_due:
  "us_now rd - static_lastUs rd s < intervalUs \<Longrightarrow>
   loop rd s = (None, s\<lparr>lastUs := Some (static_lastUs rd s)\<rparr>)"
  by (simp add: loop_def Let_def)

lemma run_Cons:
  "run (rd # rds) s =
     ((case fst (loop rd s) of None \<Rightarrow> fst (run rds (snd (loop rd s)))
       | Some x \<Rightarrow> x # fst (run rds (snd (loop rd s)))),
      snd (run rds (snd (loop rd s))))"
  by (simp add: case_prod_beta)

lemma updateCalibration_lastUs: "lastUs (updateCalibration f1 f2 ms s) = lastUs s"
  by (simp add: updateCalibration_cases tracked_def Let_def)

lemma loop_lastUs:
  "lastUs (snd (loop rd s)) =
     Some (static_lastUs rd s + (if fst (loop rd s) = None then 0 else intervalUs))"
  by (cases "us_now rd - static_lastUs rd s < intervalUs")
     (simp_all add: loop_due loop_not_due Let_def updateCalibration_lastUs)

lemma run_lastUs:
  "lastUs (snd (run (rd # rds) s)) =
     Some (static_lastUs rd s + intervalUs * of_nat (length (fst (run (rd # rds) s))))"
proof (induction rds arbitrary: rd s)
  case Nil
  show ?case using loop_lastUs[of rd s]
    by (simp add: case_prod_beta split: option.splits)
next
  case (Cons rd' rds)
  let ?s1 = "snd (loop rd s)"
  have l1: "lastUs ?s1 = Some (static_lastUs rd s + (if fst (loop rd s) = None then 0 else intervalUs))"
    by (rule loop_lastUs)
  then have sl: "static_lastUs rd' ?s1 = static_lastUs rd s + (if fst (loop rd s) = None then 0 else intervalUs)"
    by (simp add: static_lastUs_def)
  show ?case
    using Cons.IH[of rd' ?s1] sl
    by (subst (1 2) run_Cons) (simp add: algebra_simps del: run.simps split: option.splits)
qed

lemma length_run: "length (fst (run rds s)) \<le> length rds"
proof (induction rds arbitrary: s)
  case Nil show ?case by simp
next
  case (Cons rd rds)
  show ?case using Cons.IH[of "snd (loop rd s)"]
    by (simp add: case_prod_beta split: option.splits)
qed

lemma loop_fst_None: "fst (loop rd s) = None \<longleftrightarrow> us_now rd - static_lastUs rd s < intervalUs"
  by (cases "us_now rd - static_lastUs rd s < intervalUs")
     (simp_all add: loop_due loop_not_due Let_def)

lemma updateCalibration_calibrated:
  "calibrated (updateCalibration f1 f2 ms s) \<longleftrightarrow>
     calibrated s \<or> CALIBRATION_TIME_MS \<le> ms - calibStartMs s"
  by (simp add: updateCalibration_cases tracked_def Let_def)

lemma updateCalibration_calibStartMs:
  "calibStartMs (updateCalibration f1 f2 ms s) = calibStartMs s"
  by (simp add: updateCalibration_cases tracked_def Let_def)

lemma loop_calibrated:
  "calibrated (snd (loop rd s)) \<longleftrightarrow>
     calibrated s \<or> (\<not> us_now rd - static_lastUs rd s < intervalUs
                      \<and> CALIBRATION_TIME_MS \<le> ms_now rd - calibStartMs s)"
  by (cases "us_now rd - static_lastUs rd s < intervalUs")
     (simp_all add: loop_due loop_not_due Let_def updateCalibration_calibrated)

lemma loop_calibStartMs: "calibStartMs (snd (loop rd s)) = calibStartMs s"
  by (cases "us_now rd - static_lastUs rd s < intervalUs")
     (simp_all add: loop_due loop_not_due Let_def updateCalibration_calibStartMs)

lemmas timing_simps = run_Cons loop_fst_None loop_lastUs loop_calibrated loop_calibStartMs
  static_lastUs_def intervalUs_eq CALIBRATION_TIME_MS_def

lemma initFilter_first_sample:
  "fst (filter_both 512 300 initFilter) = (143.69237504, 84.194751)"
  by (simp add: initFilter_def Let_def filter_both_cascade mkBiquad_def processStage_def case_prod_beta)

lemma setup_sketch_due:
  "\<not> us_now \<lparr>us_first = 0, us_now = 8000, adc1 = a, adc2 = b, ms_now = m\<rparr>
       - static_lastUs \<lparr>us_first = 0, us_now = 8000, adc1 = a, adc2 = b, ms_now = m\<rparr> (setup_sketch 0)
     < intervalUs"
  by (simp add: static_lastUs_def setup_sketch_def intervalUs_eq)

text \<open>
  C1. When the transition fires (the flag is clear and the calibration time has elapsed),
  \<open>updateCalibration\<close> records the sample in the minima and maxima, sets the flag, and
  sets for each channel baseline = (max + min)/2 and gain = REF_MV / max(1, (max - min)/2),
  the floor being the literal 1.0. The gain is positive and at most REF_MV / 1 whatever
  was recorded before, and it is REF_MV / 1 when the recorded minimum equals the recorded
  maximum.
\<close>

theorem calibration_transition:
  assumes "\<not> calibrated s" and "CALIBRATION_TIME_MS \<le> ms - calibStartMs s"
  shows "calibrated (updateCalibration f1 f2 ms s)
     \<and> min1 (updateCalibration f1 f2 ms s) = min (min1 s) f1
     \<and> max1 (updateCalibration f1 f2 ms s) = max (max1 s) f1
     \<and> min2 (updateCalibration f1 f2 ms s) = min (min2 s) f2
     \<and> max2 (updateCalibration f1 f2 ms s) = max (max2 s) f2
     \<and> baseline1 (updateCalibration f1 f2 ms s)
         = (max1 (updateCalibration f1 f2 ms s) + min1 (updateCalibration f1 f2 ms s)) / 2
     \<and> baseline2 (updateCalibration f1 f2 ms s)
         = (max2 (updateCalibration f1 f2 ms s) + min2 (updateCalibration f1 f2 ms s)) / 2
     \<and> gain1 (updateCalibration f1 f2 ms s)
         = REF_MV / max 1 ((max1 (updateCalibration f1 f2 ms s) - min1 (updateCalibration f1 f2 ms s)) / 2)
     \<and> gain2 (updateCalibration f1 f2 ms s)
         = REF_MV / max 1 ((max2 (updateCalibration f1 f2 ms s) - min2 (updateCalibration f1 f2 ms s)) / 2)
     \<and> 0 < gain1 (updateCalibration f1 f2 ms s) \<and> gain1 (updateCalibration f1 f2 ms s) \<le> REF_MV / 1
     \<and> 0 < gain2 (updateCalibration f1 f2 ms s) \<and> gain2 (updateCalibration f1 f2 ms s) \<le> REF_MV / 1
     \<and> (min1 (updateCalibration f1 f2 ms s) = max1 (updateCalibration f1 f2 ms s)
          \<longrightarrow> gain1 (updateCalibration f1 f2 ms s) = REF_MV / 1)
     \<and> (min2 (updateCalibration f1 f2 ms s) = max2 (updateCalibration f1 f2 ms s)
          \<longrightarrow> gain2 (updateCalibration f1 f2 ms s) = REF_MV / 1)"
  using assms
  by (simp add: updateCalibration_cases tracked_def Let_def REF_MV_def divide_le_eq_1
      less_max_iff_disj)

theorem calibration_transition_witness:
  "\<not> calibrated (setup_sketch 0) \<and> CALIBRATION_TIME_MS \<le> 5000 - calibStartMs (setup_sketch 0)
   \<and> gain1 (updateCalibration 7 7 5000 (setup_sketch 0)) = REF_MV / 1"
proof -
  have h1: "\<not> calibrated (setup_sketch 0)" by (simp add: setup_sketch_def)
  have h2: "CALIBRATION_TIME_MS \<le> 5000 - calibStartMs (setup_sketch 0)"
    by (simp add: setup_sketch_def CALIBRATION_TIME_MS_def)
  have h3: "min1 (updateCalibration 7 7 5000 (setup_sketch 0))
          = max1 (updateCalibration 7 7 5000 (setup_sketch 0))"
    by (simp add: updateCalibration_def setup_sketch_def CALIBRATION_TIME_MS_def Let_def)
  from calibration_transition[OF h1 h2, of 7 7] h3 h1 h2 show ?thesis by blast
qed

lemma updateCalibration_keeps_calibrated:
  "calibrated s \<Longrightarrow> calibrated (updateCalibration f1 f2 ms s)"
  by (simp add: updateCalibration_cases tracked_def Let_def)

lemma loop_keeps_calibrated: "calibrated s \<Longrightarrow> calibrated (snd (loop rd s))"
  by (cases "us_now rd - static_lastUs rd s < intervalUs")
     (simp_all add: loop_due loop_not_due Let_def updateCalibration_keeps_calibrated)

lemma run_keeps_calibrated: "calibrated s \<Longrightarrow> calibrated (snd (run rds s))"
proof (induction rds arbitrary: s)
  case Nil
  then show ?case by simp
next
  case (Cons rd rds)
  from Cons.prems have "calibrated (snd (loop rd s))" by (rule loop_keeps_calibrated)
  then have "calibrated (snd (run rds (snd (loop rd s))))" by (rule Cons.IH)
  then show ?case by (simp add: case_prod_beta)
qed

text \<open>
  C2. A call of \<open>loop()\<close> that prints a record prints the filtered samples unchanged while
  the calibrated flag is clear, and (filtered - baseline) * gain once it is set; the flag,
  baseline and gain are those left by \<open>updateCalibration\<close> in the same call.
\<close>

theorem apply_step:
  assumes "fst (loop rd s) = Some r"
  shows "(let fs = fst (filter_both (real_of_int (adc1 rd)) (real_of_int (adc2 rd)) (st s));
              s' = snd (loop rd s)
          in (\<not> calibrated s' \<longrightarrow> lead1 r = fst fs \<and> lead2 r = snd fs)
           \<and> (calibrated s' \<longrightarrow> lead1 r = (fst fs - baseline1 s') * gain1 s'
                                \<and> lead2 r = (snd fs - baseline2 s') * gain2 s'))"
proof (cases "us_now rd - static_lastUs rd s < intervalUs")
  case True
  with assms show ?thesis by (simp add: loop_not_due)
next
  case False
  from assms show ?thesis
    unfolding loop_due[OF False]
    by (auto simp: Let_def apply_calibration_def emitJson_def)
qed

theorem apply_step_witness:
  "fst (loop \<lparr>us_first = 0, us_now = 8000, adc1 = 512, adc2 = 300, ms_now = 8\<rparr> (setup_sketch 0))
     = Some \<lparr>lead1 = 143.69237504, lead2 = 84.194751, lead3 = - 59.49762404,
             avr = - 113.94356302, avl = 101.59499954, avf = 12.34856348\<rparr>
   \<and> \<not> calibrated (snd (loop \<lparr>us_first = 0, us_now = 8000, adc1 = 512, adc2 = 300, ms_now = 8\<rparr> (setup_sketch 0)))
   \<and> fst (fst (filter_both 512 300 (st (setup_sketch 0)))) = 143.69237504
   \<and> fst (loop \<lparr>us_first = 0, us_now = 8000, adc1 = 512, adc2 = 300, ms_now = 5000\<rparr> (setup_sketch 0))
     = Some \<lparr>lead1 = 0, lead2 = 0, lead3 = 0, avr = 0, avl = 0, avf = 0\<rparr>
   \<and> calibrated (snd (loop \<lparr>us_first = 0, us_now = 8000, adc1 = 512, adc2 = 300, ms_now = 5000\<rparr> (setup_sketch 0)))
   \<and> (fst (fst (filter_both 512 300 (st (setup_sketch 0))))
        - baseline1 (snd (loop \<lparr>us_first = 0, us_now = 8000, adc1 = 512, adc2 = 300, ms_now = 5000\<rparr> (setup_sketch 0))))
       * gain1 (snd (loop \<lparr>us_first = 0, us_now = 8000, adc1 = 512, adc2 = 300, ms_now = 5000\<rparr> (setup_sketch 0)))
       = 0"
proof -
  let ?rd = "\<lparr>us_first = 0, us_now = 8000, adc1 = 512, adc2 = 300, ms_now = 8\<rparr>"
  let ?r = "\<lparr>lead1 = 143.69237504, lead2 = 84.194751, lead3 = - 59.49762404,
             avr = - 113.94356302, avl = 101.59499954, avf = 12.34856348\<rparr>"
  let ?rd' = "\<lparr>us_first = 0, us_now = 8000, adc1 = 512, adc2 = 300, ms_now = 5000\<rparr>"
  let ?r' = "\<lparr>lead1 = 0, lead2 = 0, lead3 = 0, avr = 0, avl = 0, avf = 0\<rparr>"
  have i: "st (setup_sketch 0) = initFilter" by (simp add: setup_sketch_def)
  have c: "\<not> calibrated (snd (loop ?rd (setup_sketch 0)))"
    unfolding loop_calibrated by (simp add: setup_sketch_def CALIBRATION_TIME_MS_def)
  have h: "fst (loop ?rd (setup_sketch 0)) = Some ?r"
    using c unfolding loop_due[OF setup_sketch_due]
    by (simp add: Let_def i initFilter_first_sample apply_calibration_def emitJson_def)
  have c': "calibrated (snd (loop ?rd' (setup_sketch 0)))"
    unfolding loop_calibrated
    by (simp add: setup_sketch_def CALIBRATION_TIME_MS_def static_lastUs_def intervalUs_eq)
  have h': "fst (loop ?rd' (setup_sketch 0)) = Some ?r'"
    unfolding loop_due[OF setup_sketch_due]
    by (simp add: Let_def setup_sketch_def initFilter_first_sample updateCalibration_cases
        tracked_def CALIBRATION_TIME_MS_def REF_MV_def apply_calibration_def emitJson_def)
  from apply_step[OF h] c have a: "lead1 ?r = fst (fst (filter_both 512 300 (st (setup_sketch 0))))"
    by (simp add: Let_def)
  from apply_step[OF h'] c'
  have b: "lead1 ?r' = (fst (fst (filter_both 512 300 (st (setup_sketch 0))))
                         - baseline1 (snd (loop ?rd' (setup_sketch 0))))
                        * gain1 (snd (loop ?rd' (setup_sketch 0)))"
    by (simp add: Let_def)
  from h c a h' c' b show ?thesis by simp
qed

text \<open>
  C3. Once the calibrated flag is set it stays set: \<open>updateCalibration\<close>, a call of
  \<open>loop()\<close> and any sequence of calls of \<open>loop()\<close> leave it set.
\<close>

theorem calibrated_one_shot:
  assumes "calibrated s"
  shows "calibrated (updateCalibration f1 f2 ms s)
       \<and> calibrated (snd (loop rd s))
       \<and> calibrated (snd (run rds s))"
  using assms
  by (simp add: updateCalibration_keeps_calibrated loop_keeps_calibrated run_keeps_calibrated)

theorem calibrated_one_shot_witness:
  "calibrated ((setup_sketch 0)\<lparr>calibrated := True\<rparr>)
   \<and> calibrated (snd (run [\<lparr>us_first = 0, us_now = 8000, adc1 = 512, adc2 = 300, ms_now = 8\<rparr>,
                           \<lparr>us_first = 0, us_now = 16000, adc1 = 510, adc2 = 301, ms_now = 16\<rparr>]
                          ((setup_sketch 0)\<lparr>calibrated := True\<rparr>)))"
proof -
  have h: "calibrated ((setup_sketch 0)\<lparr>calibrated := True\<rparr>)" by simp
  from calibrated_one_shot[OF h] h show ?thesis by blast
qed

lemma updateCalibration_brackets:
  "min1 (updateCalibration f1 f2 ms s) \<le> f1 \<and> f1 \<le> max1 (updateCalibration f1 f2 ms s)
   \<and> min2 (updateCalibration f1 f2 ms s) \<le> f2 \<and> f2 \<le> max2 (updateCalibration f1 f2 ms s)"
  by (simp add: updateCalibration_cases tracked_def Let_def)

lemma updateCalibration_ordered:
  "min1 (updateCalibration f1 f2 ms s) \<le> max1 (updateCalibration f1 f2 ms s)
   \<and> min2 (updateCalibration f1 f2 ms s) \<le> max2 (updateCalibration f1 f2 ms s)"
  using updateCalibration_brackets[of f1 f2 ms s] by linarith

lemma loop_emits_ordered: "fst (loop rd s) \<noteq> None \<Longrightarrow> ordered (snd (loop rd s))"
proof (cases "us_now rd - static_lastUs rd s < intervalUs")
  case True
  assume "fst (loop rd s) \<noteq> None"
  with True show ?thesis by (simp add: loop_not_due)
next
  case False
  show ?thesis
    unfolding loop_due[OF False] ordered_def Let_def snd_conv
    by (rule updateCalibration_ordered)
qed

lemma loop_silent: "fst (loop rd s) = None \<Longrightarrow> snd (loop rd s) = s\<lparr>lastUs := Some (static_lastUs rd s)\<rparr>"
  by (cases "us_now rd - static_lastUs rd s < intervalUs")
     (simp_all add: loop_due loop_not_due Let_def)

lemma loop_keeps_ordered: "ordered s \<Longrightarrow> ordered (snd (loop rd s))"
proof (cases "fst (loop rd s) = None")
  case True
  assume "ordered s"
  then show ?thesis by (simp add: loop_silent[OF True] ordered_def)
next
  case False
  then show ?thesis by (rule loop_emits_ordered)
qed

lemma run_keeps_ordered: "ordered s \<Longrightarrow> ordered (snd (run rds s))"
proof (induction rds arbitrary: s)
  case Nil
  then show ?case by simp
next
  case (Cons rd rds)
  from Cons.prems have "ordered (snd (loop rd s))" by (rule loop_keeps_ordered)
  then have "ordered (snd (run rds (snd (loop rd s))))" by (rule Cons.IH)
  then show ?case by (simp add: case_prod_beta)
qed

lemma run_calibrated_observed:
  "\<not> calibrated s \<Longrightarrow> calibrated (snd (run rds s)) \<Longrightarrow>
     fst (run rds s) \<noteq> [] \<and> ordered (snd (run rds s))"
proof (induction rds arbitrary: s)
  case Nil
  then show ?case by simp
next
  case (Cons rd rds)
  show ?case
  proof (cases "fst (loop rd s)")
    case None
    then have s1: "snd (loop rd s) = s\<lparr>lastUs := Some (static_lastUs rd s)\<rparr>" by (rule loop_silent)
    with Cons.prems have "\<not> calibrated (snd (loop rd s))" by simp
    moreover from Cons.prems have "calibrated (snd (run rds (snd (loop rd s))))"
      by (simp add: case_prod_beta)
    ultimately have "fst (run rds (snd (loop rd s))) \<noteq> [] \<and> ordered (snd (run rds (snd (loop rd s))))"
      by (rule Cons.IH)
    with None show ?thesis by (subst (1 2) run_Cons) simp
  next
    case (Some r)
    then have "ordered (snd (loop rd s))" by (simp add: loop_emits_ordered)
    then have "ordered (snd (run rds (snd (loop rd s))))" by (rule run_keeps_ordered)
    with Some show ?thesis by (subst (1 2) run_Cons) simp
  qed
qed

text \<open>
  C10. The flag is set only by a call of \<open>loop()\<close> that has filtered a sample and recorded
  it: if the flag is clear before a sequence of calls and set after it, at least one record
  was printed, and on each channel the recorded minimum is at most the recorded maximum, so
  the amplitude (max - min)/2 is not negative. The sample handed to \<open>updateCalibration\<close>
  lies between the minimum and the maximum that the call leaves.
\<close>

theorem calibrated_implies_observed:
  assumes "\<not> calibrated s" and "calibrated (snd (run rds s))"
  shows "fst (run rds s) \<noteq> []
       \<and> min1 (snd (run rds s)) \<le> max1 (snd (run rds s))
       \<and> min2 (snd (run rds s)) \<le> max2 (snd (run rds s))
       \<and> 0 \<le> 0.5 * (max1 (snd (run rds s)) - min1 (snd (run rds s)))
       \<and> 0 \<le> 0.5 * (max2 (snd (run rds s)) - min2 (snd (run rds s)))
       \<and> min1 (updateCalibration f1 f2 ms s) \<le> f1 \<and> f1 \<le> max1 (updateCalibration f1 f2 ms s)
       \<and> min2 (updateCalibration f1 f2 ms s) \<le> f2 \<and> f2 \<le> max2 (updateCalibration f1 f2 ms s)"
  using run_calibrated_observed[OF assms] updateCalibration_brackets[of f1 f2 ms s]
  by (simp add: ordered_def)

theorem calibrated_implies_observed_witness:
  "\<not> calibrated (setup_sketch 0)
   \<and> calibrated (snd (run [\<lparr>us_first = 0, us_now = 100, adc1 = 512, adc2 = 300, ms_now = 0\<rparr>,
                           \<lparr>us_first = 0, us_now = 5000000, adc1 = 512, adc2 = 300, ms_now = 5000\<rparr>]
                          (setup_sketch 0)))
   \<and> fst (run [\<lparr>us_first = 0, us_now = 100, adc1 = 512, adc2 = 300, ms_now = 0\<rparr>,
               \<lparr>us_first = 0, us_now = 5000000, adc1 = 512, adc2 = 300, ms_now = 5000\<rparr>]
              (setup_sketch 0)) \<noteq> []"
proof -
  let ?rds = "[\<lparr>us_first = 0, us_now = 100, adc1 = 512, adc2 = 300, ms_now = 0\<rparr>,
               \<lparr>us_first = 0, us_now = 5000000, adc1 = 512, adc2 = 300, ms_now = 5000\<rparr>]"
  have h1: "\<not> calibrated (setup_sketch 0)" by (simp add: setup_sketch_def)
  have h2: "calibrated (snd (run ?rds (setup_sketch 0)))"
    by (simp add: timing_simps setup_sketch_def del: run.simps(2))
  from calibrated_implies_observed[OF h1 h2] h1 h2 show ?thesis by blast
qed

section \<open>The scheduler: theorems\<close>

lemma still_due_word:
  fixes now last :: "32 word"
  assumes "16000 \<le> now - last"
  shows "\<not> now - (last + 8000) < 8000"
proof -
  have e: "now - (last + 8000) = (now - last) - 8000" by simp
  from assms show ?thesis unfolding e by unat_arith
qed

lemma loop_catches_up:
  assumes "2 * intervalUs \<le> us_now rd - static_lastUs rd s" and "us_now rd' = us_now rd"
  shows "fst (loop rd s) \<noteq> None \<and> fst (loop rd' (snd (loop rd s))) \<noteq> None"
proof -
  from assms(1) have a: "16000 \<le> us_now rd - static_lastUs rd s" by (simp add: intervalUs_eq)
  then have d: "\<not> us_now rd - static_lastUs rd s < intervalUs"
    unfolding intervalUs_eq by unat_arith
  then have n: "fst (loop rd s) \<noteq> None" by (simp add: loop_fst_None)
  with loop_lastUs[of rd s] have "lastUs (snd (loop rd s)) = Some (static_lastUs rd s + 8000)"
    by (simp add: intervalUs_eq)
  then have l: "static_lastUs rd' (snd (loop rd s)) = static_lastUs rd s + 8000"
    by (simp add: static_lastUs_def)
  from still_due_word[OF a] have "\<not> us_now rd' - static_lastUs rd' (snd (loop rd s)) < intervalUs"
    by (simp add: l assms(2) intervalUs_eq)
  with n show ?thesis by (simp add: loop_fst_None)
qed

text \<open>
  C7, as stated, fails. After an overrun the samples are not kept an interval apart: the
  sketch catches up. From the state left by \<open>setup()\<close>, a first call of \<open>loop()\<close> that
  comes 20000 microseconds after the static initialiser prints a record, and a second call
  10 microseconds later prints another one, a burst of two samples within a fraction of
  the 8000 microsecond interval.
\<close>

theorem back_to_back_records:
  "fst (loop \<lparr>us_first = 0, us_now = 20000, adc1 = 512, adc2 = 300, ms_now = 20\<rparr> (setup_sketch 0)) \<noteq> None
   \<and> fst (loop \<lparr>us_first = 0, us_now = 20010, adc1 = 512, adc2 = 300, ms_now = 20\<rparr>
           (snd (loop \<lparr>us_first = 0, us_now = 20000, adc1 = 512, adc2 = 300, ms_now = 20\<rparr> (setup_sketch 0))))
       \<noteq> None
   \<and> us_now \<lparr>us_first = 0, us_now = 20010, adc1 = 512, adc2 = 300, ms_now = 20\<rparr>
       - us_now \<lparr>us_first = 0, us_now = 20000, adc1 = 512, adc2 = 300, ms_now = 20\<rparr> = (10 :: 32 word)
   \<and> (10 :: 32 word) < intervalUs"
  by (simp add: loop_fst_None loop_lastUs static_lastUs_def setup_sketch_def intervalUs_eq)

text \<open>
  C7, amended. The interval is 8000 microseconds. A call of \<open>loop()\<close> made before the
  deadline prints nothing and changes nothing but the initialisation of \<open>lastUs\<close>; a call
  made at or after the deadline prints exactly one record and moves \<open>lastUs\<close> forward by
  exactly one interval, however late it is, and never sets it to the current time. Over
  any sequence of calls there is at most one record per call, and \<open>lastUs\<close> has advanced by
  one interval per record printed (in 32-bit arithmetic), so no deadline is skipped or
  served twice. A call that is two intervals late or more leaves the next deadline already
  due: the next call prints its record without waiting, even at the same clock reading.
\<close>

theorem scheduler_deadline:
  "intervalUs = 8000
   \<and> (us_now rd - static_lastUs rd s < intervalUs \<longrightarrow>
        loop rd s = (None, s\<lparr>lastUs := Some (static_lastUs rd s)\<rparr>))
   \<and> (\<not> us_now rd - static_lastUs rd s < intervalUs \<longrightarrow>
        (\<exists>r. fst (loop rd s) = Some r)
        \<and> lastUs (snd (loop rd s)) = Some (static_lastUs rd s + intervalUs))
   \<and> length (fst (run (rd # rds) s)) \<le> length (rd # rds)
   \<and> lastUs (snd (run (rd # rds) s)) =
        Some (static_lastUs rd s + intervalUs * of_nat (length (fst (run (rd # rds) s))))
   \<and> (2 * intervalUs \<le> us_now rd - static_lastUs rd s \<and> us_now rd' = us_now rd \<longrightarrow>
        fst (loop rd s) \<noteq> None \<and> fst (loop rd' (snd (loop rd s))) \<noteq> None)"
proof (intro conjI impI)
  show "intervalUs = 8000" by (rule intervalUs_eq)
  show "length (fst (run (rd # rds) s)) \<le> length (rd # rds)" by (rule length_run)
  show "lastUs (snd (run (rd # rds) s)) =
        Some (static_lastUs rd s + intervalUs * of_nat (length (fst (run (rd # rds) s))))"
    by (rule run_lastUs)
next
  assume "us_now rd - static_lastUs rd s < intervalUs"
  then show "loop rd s = (None, s\<lparr>lastUs := Some (static_lastUs rd s)\<rparr>)"
    by (rule loop_not_due)
next
  assume d: "\<not> us_now rd - static_lastUs rd s < intervalUs"
  show "\<exists>r. fst (loop rd s) = Some r"
    by (simp add: loop_due[OF d] Let_def)
  show "lastUs (snd (loop rd s)) = Some (static_lastUs rd s + intervalUs)"
    using loop_lastUs[of rd s] by (simp add: loop_due[OF d] Let_def)
next
  assume c: "2 * intervalUs \<le> us_now rd - static_lastUs rd s \<and> us_now rd' = us_now rd"
  then show "fst (loop rd s) \<noteq> None" using loop_catches_up[of rd s rd'] by blast
  from c show "fst (loop rd' (snd (loop rd s))) \<noteq> None" using loop_catches_up[of rd s rd'] by blast
qed

theorem scheduler_deadline_witness:
  "us_now \<lparr>us_first = 0, us_now = 100, adc1 = 512, adc2 = 300, ms_now = 0\<rparr>
     - static_lastUs \<lparr>us_first = 0, us_now = 100, adc1 = 512, adc2 = 300, ms_now = 0\<rparr> (setup_sketch 0)
     < intervalUs
   \<and> loop \<lparr>us_first = 0, us_now = 100, adc1 = 512, adc2 = 300, ms_now = 0\<rparr> (setup_sketch 0)
       = (None, (setup_sketch 0)\<lparr>lastUs := Some 0\<rparr>)
   \<and> \<not> us_now \<lparr>us_first = 0, us_now = 20000, adc1 = 512, adc2 = 300, ms_now = 20\<rparr>
         - static_lastUs \<lparr>us_first = 0, us_now = 20000, adc1 = 512, adc2 = 300, ms_now = 20\<rparr> (setup_sketch 0)
         < intervalUs
   \<and> lastUs (snd (loop \<lparr>us_first = 0, us_now = 20000, adc1 = 512, adc2 = 300, ms_now = 20\<rparr> (setup_sketch 0)))
       = Some 8000
   \<and> 2 * intervalUs
       \<le> us_now \<lparr>us_first = 0, us_now = 20000, adc1 = 512, adc2 = 300, ms_now = 20\<rparr>
         - static_lastUs \<lparr>us_first = 0, us_now = 20000, adc1 = 512, adc2 = 300, ms_now = 20\<rparr> (setup_sketch 0)
   \<and> fst (loop \<lparr>us_first = 0, us_now = 20000, adc1 = 511, adc2 = 301, ms_now = 20\<rparr>
           (snd (loop \<lparr>us_first = 0, us_now = 20000, adc1 = 512, adc2 = 300, ms_now = 20\<rparr> (setup_sketch 0))))
       \<noteq> None"
proof -
  let ?a = "\<lparr>us_first = 0, us_now = 100, adc1 = 512, adc2 = 300, ms_now = 0\<rparr>"
  let ?b = "\<lparr>us_first = 0, us_now = 20000, adc1 = 512, adc2 = 300, ms_now = 20\<rparr>"
  let ?c = "\<lparr>us_first = 0, us_now = 20000, adc1 = 511, adc2 = 301, ms_now = 20\<rparr>"
  have sa: "static_lastUs ?a (setup_sketch 0) = 0" and sb: "static_lastUs ?b (setup_sketch 0) = 0"
    by (simp_all add: static_lastUs_def setup_sketch_def)
  have ha: "us_now ?a - static_lastUs ?a (setup_sketch 0) < intervalUs"
    by (simp add: sa intervalUs_eq)
  have hb: "\<not> us_now ?b - static_lastUs ?b (setup_sketch 0) < intervalUs"
    by (simp add: sb intervalUs_eq)
  have hc: "2 * intervalUs \<le> us_now ?b - static_lastUs ?b (setup_sketch 0)"
    by (simp add: sb intervalUs_eq)
  have hd: "us_now ?c = us_now ?b" by simp
  from scheduler_deadline[of ?a "setup_sketch 0"] ha
  have ca: "loop ?a (setup_sketch 0) = (None, (setup_sketch 0)\<lparr>lastUs := Some 0\<rparr>)"
    unfolding sa by blast
  from scheduler_deadline[of ?b "setup_sketch 0"] hb
  have cb: "lastUs (snd (loop ?b (setup_sketch 0))) = Some 8000"
    unfolding sb by simp
  from scheduler_deadline[of ?b "setup_sketch 0" _ ?c] hc hd
  have cc: "fst (loop ?c (snd (loop ?b (setup_sketch 0)))) \<noteq> None"
    by blast
  from ha ca hb cb hc cc show ?thesis by blast
qed

section \<open>Constant inputs through a pass-through cascade: theorems\<close>

lemma cascade_pass:
  "list_all is_pass ss \<Longrightarrow> fst (cascade ss y) = y \<and> list_all is_pass (snd (cascade ss y))"
proof (induction ss arbitrary: y)
  case Nil
  show ?case by simp
next
  case (Cons s ss)
  then have p: "is_pass s" and ps: "list_all is_pass ss" by simp_all
  from p have e: "processStage s y = (y, s\<lparr>z2 := z1 s, z1 := y\<rparr>)"
    by (simp add: processStage_def is_pass_def Let_def)
  from p have q: "is_pass (s\<lparr>z2 := z1 s, z1 := y\<rparr>)" by (simp add: is_pass_def)
  from Cons.IH[OF ps, of y] e q show ?case by (simp add: case_prod_beta)
qed

lemma filter_both_pass:
  assumes "pass_st stv"
  shows "fst (filter_both r1 r2 stv) = (r1, r2) \<and> pass_st (snd (filter_both r1 r2 stv))"
proof -
  from assms obtain c0 c1 where s: "stv = [c0, c1]" and l: "length c0 = 4" "length c1 = 4"
    unfolding pass_st_def wf_st_pair by blast
  from assms s have p: "list_all is_pass c0" "list_all is_pass c1" by (simp_all add: pass_st_def)
  show ?thesis
    unfolding s filter_both_cascade[OF l]
    using cascade_pass[OF p(1), of r1] cascade_pass[OF p(2), of r2] l
    by (simp add: pass_st_def wf_st_def length_cascade)
qed

lemma steady_start: "steady (passthrough_sketch ms)"
  by (simp add: steady_def passthrough_sketch_def setup_sketch_def pass_st_def wf_st_def
      passthrough_def mkBiquad_def is_pass_def numeral_eq_Suc)

lemma loop_steady:
  assumes "steady s" "adc1 rd = 100" "adc2 rd = 150"
  shows "steady (snd (loop rd s))"
proof (cases "us_now rd - static_lastUs rd s < intervalUs")
  case True
  with assms show ?thesis by (simp add: loop_not_due steady_def)
next
  case False
  from assms have p: "pass_st (st s)" by (simp add: steady_def)
  note fb = filter_both_pass[OF p, of "real_of_int (adc1 rd)" "real_of_int (adc2 rd)"]
  from assms fb show ?thesis
    unfolding loop_due[OF False]
    by (auto simp: Let_def steady_def updateCalibration_cases tracked_def REF_MV_def)
qed

lemma run_steady:
  assumes "steady s" "\<forall>rd \<in> set rds. adc1 rd = 100 \<and> adc2 rd = 150"
  shows "steady (snd (run rds s))"
  using assms
proof (induction rds arbitrary: s)
  case Nil
  then show ?case by simp
next
  case (Cons rd rds)
  then have "steady (snd (loop rd s))" by (simp add: loop_steady)
  with Cons have "steady (snd (run rds (snd (loop rd s))))" by simp
  then show ?case by (subst run_Cons) simp
qed

lemma loop_steady_record:
  assumes "steady s" "calibrated s" "adc1 rd = 100" "adc2 rd = 150"
     "\<not> us_now rd - static_lastUs rd s < intervalUs"
  shows "fst (loop rd s) = Some \<lparr>lead1 = 0, lead2 = 0, lead3 = 0, avr = 0, avl = 0, avf = 0\<rparr>"
proof -
  from assms have p: "pass_st (st s)" by (simp add: steady_def)
  note fb = filter_both_pass[OF p, of "real_of_int (adc1 rd)" "real_of_int (adc2 rd)"]
  from assms fb show ?thesis
    unfolding loop_due[OF assms(5)]
    by (auto simp: Let_def steady_def updateCalibration_cases tracked_def REF_MV_def
        apply_calibration_def emitJson_def)
qed

text \<open>
  C8. With pass-through stages, channel 1 reading 100 and channel 2 reading 150 on every
  call: once the calibrated flag is set, baseline1 = 100, baseline2 = 150, both gains are
  REF_MV / 1, and the next call that is due prints the record with all six leads zero.
\<close>

theorem constant_input_end_to_end:
  assumes "\<forall>rd \<in> set rds. adc1 rd = 100 \<and> adc2 rd = 150"
    and "calibrated (snd (run rds (passthrough_sketch ms0)))"
    and "adc1 rd = 100 \<and> adc2 rd = 150"
    and "\<not> us_now rd - static_lastUs rd (snd (run rds (passthrough_sketch ms0))) < intervalUs"
  shows "baseline1 (snd (run rds (passthrough_sketch ms0))) = 100
       \<and> baseline2 (snd (run rds (passthrough_sketch ms0))) = 150
       \<and> gain1 (snd (run rds (passthrough_sketch ms0))) = REF_MV / 1
       \<and> gain2 (snd (run rds (passthrough_sketch ms0))) = REF_MV / 1
       \<and> fst (loop rd (snd (run rds (passthrough_sketch ms0))))
           = Some \<lparr>lead1 = 0, lead2 = 0, lead3 = 0, avr = 0, avl = 0, avf = 0\<rparr>"
proof -
  let ?s = "snd (run rds (passthrough_sketch ms0))"
  have st: "steady ?s" using steady_start assms(1) by (rule run_steady)
  with assms(2) have "baseline1 ?s = 100 \<and> baseline2 ?s = 150 \<and> gain1 ?s = 1 \<and> gain2 ?s = 1"
    by (auto simp: steady_def)
  moreover have "fst (loop rd ?s) = Some \<lparr>lead1 = 0, lead2 = 0, lead3 = 0, avr = 0, avl = 0, avf = 0\<rparr>"
    using st assms(2) assms(3) assms(4) by (simp add: loop_steady_record)
  ultimately show ?thesis by (simp add: REF_MV_def)
qed

theorem constant_input_end_to_end_witness:
  "list_all (\<lambda>rd. adc1 rd = 100 \<and> adc2 rd = 150)
     [\<lparr>us_first = 0, us_now = 8000, adc1 = 100, adc2 = 150, ms_now = 8\<rparr>,
      \<lparr>us_first = 0, us_now = 5000000, adc1 = 100, adc2 = 150, ms_now = 5000\<rparr>]
   \<and> calibrated (snd (run [\<lparr>us_first = 0, us_now = 8000, adc1 = 100, adc2 = 150, ms_now = 8\<rparr>,
                           \<lparr>us_first = 0, us_now = 5000000, adc1 = 100, adc2 = 150, ms_now = 5000\<rparr>]
                          (passthrough_sketch 0)))
   \<and> \<not> us_now \<lparr>us_first = 0, us_now = 5000100, adc1 = 100, adc2 = 150, ms_now = 5000\<rparr>
         - static_lastUs \<lparr>us_first = 0, us_now = 5000100, adc1 = 100, adc2 = 150, ms_now = 5000\<rparr>
             (snd (run [\<lparr>us_first = 0, us_now = 8000, adc1 = 100, adc2 = 150, ms_now = 8\<rparr>,
                        \<lparr>us_first = 0, us_now = 5000000, adc1 = 100, adc2 = 150, ms_now = 5000\<rparr>]
                       (passthrough_sketch 0)))
         < intervalUs
   \<and> baseline1 (snd (run [\<lparr>us_first = 0, us_now = 8000, adc1 = 100, adc2 = 150, ms_now = 8\<rparr>,
                           \<lparr>us_first = 0, us_now = 5000000, adc1 = 100, adc2 = 150, ms_now = 5000\<rparr>]
                          (passthrough_sketch 0))) = 100
   \<and> fst (loop \<lparr>us_first = 0, us_now = 5000100, adc1 = 100, adc2 = 150, ms_now = 5000\<rparr>
             (snd (run [\<lparr>us_first = 0, us_now = 8000, adc1 = 100, adc2 = 150, ms_now = 8\<rparr>,
                        \<lparr>us_first = 0, us_now = 5000000, adc1 = 100, adc2 = 150, ms_now = 5000\<rparr>]
                       (passthrough_sketch 0))))
       = Some \<lparr>lead1 = 0, lead2 = 0, lead3 = 0, avr = 0, avl = 0, avf = 0\<rparr>"
proof -
  let ?rds = "[\<lparr>us_first = 0, us_now = 8000, adc1 = 100, adc2 = 150, ms_now = 8\<rparr>,
               \<lparr>us_first = 0, us_now = 5000000, adc1 = 100, adc2 = 150, ms_now = 5000\<rparr>]"
  let ?rd = "\<lparr>us_first = 0, us_now = 5000100, adc1 = 100, adc2 = 150, ms_now = 5000\<rparr>"
  have h1: "\<forall>rd \<in> set ?rds. adc1 rd = 100 \<and> adc2 rd = 150" by simp
  have h2: "calibrated (snd (run ?rds (passthrough_sketch 0)))"
    by (simp add: timing_simps passthrough_sketch_def setup_sketch_def del: run.simps(2))
  have h3: "adc1 ?rd = 100 \<and> adc2 ?rd = 150" by simp
  have h4: "\<not> us_now ?rd - static_lastUs ?rd (snd (run ?rds (passthrough_sketch 0))) < intervalUs"
    by (simp add: timing_simps passthrough_sketch_def setup_sketch_def del: run.simps(2))
  have h0: "list_all (\<lambda>rd. adc1 rd = 100 \<and> adc2 rd = 150) ?rds" by simp
  from constant_input_end_to_end[OF h1 h2 h3 h4] h0 h2 h4 show ?thesis by blast
qed

end
